theory Spec2Isabelle
  imports Main "HOL-Library.Sublist"
begin

section \<open>The Delta Lake connector: \<^verbatim>\<open>pathway/io/deltalake/__init__.py\<close>\<close>

text \<open>
  The module defines one constant, \<^verbatim>\<open>S3_URI_PREFIX\<close>, and two functions, \<^verbatim>\<open>read\<close> and
  \<^verbatim>\<open>write\<close>. Both are straight-line code that calls helpers of other modules
  (\<^verbatim>\<open>_check_entitlements\<close>, \<^verbatim>\<open>read_schema\<close>, \<^verbatim>\<open>internal_connector_mode\<close>,
  \<^verbatim>\<open>AwsS3Settings.new_from_path\<close>, \<^verbatim>\<open>as_deltalake_storage_options\<close>,
  \<^verbatim>\<open>_format_output_value_fields\<close>), builds configuration objects and hands them to the
  engine. The helpers are parameters of the model; every call that can raise is a branch
  with an error value, and every construction and registration is written to a log in
  the order in which the Python performs it. The two decorators are left out:
  \<^verbatim>\<open>check_arg_types\<close> rejects arguments of the wrong type, which the types of the model
  exclude, and \<^verbatim>\<open>trace_user_frame\<close> only annotates an exception on its way out.
\<close>

subsection \<open>Errors, keyword arguments, effects\<close>

datatype error =
    EntitlementError
  | ConfigurationError
  | SchemaError
  | OtherError string

text \<open>A keyword argument of a Python call: left out, or passed (possibly as \<^verbatim>\<open>None\<close>).\<close>

datatype 'a kwarg = Omitted | Given 'a

fun kwarg_default :: "'a \<Rightarrow> 'a kwarg \<Rightarrow> 'a" where
  "kwarg_default d Omitted = d"
| "kwarg_default d (Given x) = x"

text \<open>
  A computation takes the log so far and returns a value or the raised error, with the
  log extended by what it did. An exception leaves the log as it was when it was raised.
\<close>

type_synonym ('e, 'a) eff = "'e list \<Rightarrow> (error + 'a) \<times> 'e list"

definition eff_return :: "'a \<Rightarrow> ('e, 'a) eff" where
  "eff_return x = (\<lambda>log. (Inr x, log))"

definition eff_raise :: "error \<Rightarrow> ('e, 'a) eff" where
  "eff_raise e = (\<lambda>log. (Inl e, log))"

definition eff_log :: "'e \<Rightarrow> ('e, unit) eff" where
  "eff_log ev = (\<lambda>log. (Inr (), log @ [ev]))"

definition eff_of :: "error + 'a \<Rightarrow> ('e, 'a) eff" where
  "eff_of r = (case r of Inl e \<Rightarrow> eff_raise e | Inr x \<Rightarrow> eff_return x)"

definition eff_bind :: "('e, 'a) eff \<Rightarrow> ('a \<Rightarrow> ('e, 'b) eff) \<Rightarrow> ('e, 'b) eff" where
  "eff_bind m f = (\<lambda>log. case m log of
                           (Inl e, log') \<Rightarrow> (Inl e, log')
                         | (Inr x, log') \<Rightarrow> f x log')"

subsection \<open>Configuration objects\<close>

text \<open>
  \<^verbatim>\<open>AwsS3Settings\<close>, with the fields the docstring of \<^verbatim>\<open>write\<close> names. The connector never
  looks inside: it only forwards the object to \<^verbatim>\<open>as_deltalake_storage_options\<close>.
\<close>

record aws_s3_settings =
  bucket_name :: "string option"
  region :: "string option"
  access_key :: "string option"
  secret_access_key :: "string option"
  endpoint :: "string option"

text \<open>A table, as far as the connector is concerned: its ordered (name, type) columns.\<close>

type_synonym column = "string \<times> string"

record table =
  columns :: "column list"

datatype value_field = ValueField string string

datatype connector_mode = Streaming | Static

text \<open>
  \<^verbatim>\<open>api.DataStorage(...)\<close>, by the keyword arguments the two call sites pass:
  \<^verbatim>\<open>storage_type\<close> and \<^verbatim>\<open>path\<close> always, \<^verbatim>\<open>storage_options\<close> and \<^verbatim>\<open>min_commit_frequency\<close>
  in \<^verbatim>\<open>write\<close>, \<^verbatim>\<open>mode\<close> and \<^verbatim>\<open>persistent_id\<close> in \<^verbatim>\<open>read\<close>.
\<close>

record data_storage =
  storage_type :: string
  path :: string
  storage_options :: "(string \<rightharpoonup> string) kwarg"
  min_commit_frequency :: "int option kwarg"
  mode :: "connector_mode kwarg"
  persistent_id :: "string option kwarg"

text \<open>\<^verbatim>\<open>api.DataFormat(format_type=..., key_field_names=..., value_fields=...)\<close> of \<^verbatim>\<open>write\<close>.\<close>

record data_format =
  format_type :: string
  key_field_names :: "string list option"
  value_fields :: "value_field list"

text \<open>\<^verbatim>\<open>datasink.GenericDataSink(data_storage, data_format, datasink_name=...)\<close>.\<close>

record data_sink =
  sink_storage :: data_storage
  sink_format :: data_format
  datasink_name :: string

subsection \<open>\<^verbatim>\<open>write\<close>\<close>

definition S3_URI_PREFIX :: string where
  "S3_URI_PREFIX = ''s3://''"

text \<open>
  The helpers \<^verbatim>\<open>write\<close> and \<^verbatim>\<open>read\<close> call. \<^verbatim>\<open>check_entitlements\<close> returns the exception
  it raises, if any; \<^verbatim>\<open>new_from_path\<close> and \<^verbatim>\<open>format_output_value_fields\<close> return a value
  or raise; \<^verbatim>\<open>as_deltalake_storage_options\<close> builds a dictionary.
\<close>

record services =
  check_entitlements :: "string \<Rightarrow> error option"
  new_from_path :: "string \<Rightarrow> error + aws_s3_settings"
  as_deltalake_storage_options :: "aws_s3_settings \<Rightarrow> (string \<rightharpoonup> string)"
  format_output_value_fields :: "table \<Rightarrow> error + value_field list"

datatype write_event =
    CheckEntitlements string
  | NewFromPath string
  | DataStorageBuilt data_storage
  | DataFormatBuilt data_format
  | TableTo table data_sink

definition eff_check :: "error option \<Rightarrow> ('e, unit) eff" where
  "eff_check r = (case r of Some e \<Rightarrow> eff_raise e | None \<Rightarrow> eff_return ())"

text \<open>The test of line 218, \<^verbatim>\<open>uri.startswith(S3_URI_PREFIX)\<close>.\<close>

definition is_s3_uri :: "string \<Rightarrow> bool" where
  "is_s3_uri uri = prefix S3_URI_PREFIX uri"

text \<open>Lines 217 to 221: the options map.\<close>

definition resolve_storage_options ::
  "services \<Rightarrow> string \<Rightarrow> aws_s3_settings option \<Rightarrow> (write_event, string \<rightharpoonup> string) eff" where
  "resolve_storage_options sv uri s3_connection_settings =
     (if is_s3_uri uri then
        eff_bind
          (case s3_connection_settings of
             None \<Rightarrow>
               eff_bind (eff_log (NewFromPath uri)) (\<lambda>_. eff_of (new_from_path sv uri))
           | Some s \<Rightarrow> eff_return s)
          (\<lambda>s. eff_return (as_deltalake_storage_options sv s))
      else eff_return Map.empty)"

text \<open>The body of \<^verbatim>\<open>write\<close>, lines 216 to 241, on the values of its parameters.\<close>

definition write_body ::
  "services \<Rightarrow> table \<Rightarrow> string \<Rightarrow> aws_s3_settings option \<Rightarrow> int option
     \<Rightarrow> (write_event, unit) eff" where
  "write_body sv tbl uri s3_connection_settings min_commit_freq =
     eff_bind (eff_log (CheckEntitlements ''deltalake'')) (\<lambda>_.
     eff_bind (eff_check (check_entitlements sv ''deltalake'')) (\<lambda>_.
     eff_bind (resolve_storage_options sv uri s3_connection_settings) (\<lambda>opts.
     let data_storage =
           \<lparr>storage_type = ''deltalake'', path = uri,
            storage_options = Given opts,
            min_commit_frequency = Given min_commit_freq,
            mode = Omitted, persistent_id = Omitted\<rparr> in
     eff_bind (eff_log (DataStorageBuilt data_storage)) (\<lambda>_.
     eff_bind (eff_of (format_output_value_fields sv tbl)) (\<lambda>vfs.
     let data_format =
           \<lparr>format_type = ''identity'', key_field_names = None,
            value_fields = vfs\<rparr> in
     eff_bind (eff_log (DataFormatBuilt data_format)) (\<lambda>_.
     eff_log (TableTo tbl
       \<lparr>sink_storage = data_storage, sink_format = data_format,
        datasink_name = ''deltalake''\<rparr>)))))))"

text \<open>
  \<^verbatim>\<open>write(table, uri, *, s3_connection_settings=None, min_commit_frequency=60_000)\<close>: a
  keyword the caller leaves out takes the default of the signature. (\<open>write\<close> is a
  keyword of the proof language, hence the longer name.)
\<close>

definition deltalake_write ::
  "services \<Rightarrow> table \<Rightarrow> string \<Rightarrow> aws_s3_settings option kwarg \<Rightarrow> int option kwarg
     \<Rightarrow> (write_event, unit) eff" where
  "deltalake_write sv tbl uri s3_connection_settings min_commit_freq =
     write_body sv tbl uri
       (kwarg_default None s3_connection_settings)
       (kwarg_default (Some 60000) min_commit_freq)"

text \<open>What a run of \<^verbatim>\<open>write\<close> left in the log.\<close>

fun storages_built :: "write_event list \<Rightarrow> data_storage list" where
  "storages_built [] = []"
| "storages_built (DataStorageBuilt s # es) = s # storages_built es"
| "storages_built (_ # es) = storages_built es"

fun formats_built :: "write_event list \<Rightarrow> data_format list" where
  "formats_built [] = []"
| "formats_built (DataFormatBuilt f # es) = f # formats_built es"
| "formats_built (_ # es) = formats_built es"

fun sinks_registered :: "write_event list \<Rightarrow> data_sink list" where
  "sinks_registered [] = []"
| "sinks_registered (TableTo t s # es) = s # sinks_registered es"
| "sinks_registered (_ # es) = sinks_registered es"

fun discoveries :: "write_event list \<Rightarrow> string list" where
  "discoveries [] = []"
| "discoveries (NewFromPath u # es) = u # discoveries es"
| "discoveries (_ # es) = discoveries es"

subsection \<open>\<^verbatim>\<open>read\<close>\<close>

text \<open>\<^verbatim>\<open>datasource.DataSourceOptions(commit_duration_ms=...)\<close>.\<close>

record data_source_options =
  commit_duration_ms :: "int option"

text \<open>
  \<^verbatim>\<open>api.DataFormat(format_type="transparent", **api_schema)\<close>: the keyword dictionary that
  \<^verbatim>\<open>read_schema\<close> returned is passed on whole, so it is kept as one opaque value.
\<close>

record 'a schema_format =
  schema_format_type :: string
  schema_kwargs :: 'a

text \<open>\<^verbatim>\<open>datasource.GenericDataSource(...)\<close>, by its six keyword arguments.\<close>

record ('s, 'a) data_source =
  datastorage :: data_storage
  dataformat :: "'a schema_format"
  source_schema :: 's
  source_options :: data_source_options
  datasource_name :: string
  append_only :: bool

text \<open>
  The value of \<^verbatim>\<open>table_from_datasource(source, debug_datasource=debug_datasource(debug_data))\<close>:
  the table of that source, with the debug data it was given.
\<close>

record ('s, 'a, 'd) source_table =
  table_source :: "('s, 'a) data_source"
  table_debug_data :: "'d option"

record ('s, 'a) schema_services =
  read_schema :: "'s \<Rightarrow> error + 's \<times> 'a"
  internal_connector_mode :: "string \<Rightarrow> error + connector_mode"

datatype ('s, 'a, 'd) read_event =
    ReadCheckEntitlements string
  | SourceStorageBuilt data_storage
  | SourceFormatBuilt "'a schema_format"
  | TableFromDatasource "('s, 'a) data_source" "'d option"

text \<open>The body of \<^verbatim>\<open>read\<close>, lines 101 to 135, on the values of its parameters.\<close>

definition read_body ::
  "services \<Rightarrow> ('s, 'a) schema_services \<Rightarrow> string \<Rightarrow> 's \<Rightarrow> string \<Rightarrow> int option
     \<Rightarrow> string option \<Rightarrow> 'd option
     \<Rightarrow> (('s, 'a, 'd) read_event, ('s, 'a, 'd) source_table) eff" where
  "read_body sv rs uri schema mode_name autocommit_duration_ms persistent debug_data =
     eff_bind (eff_log (ReadCheckEntitlements ''deltalake'')) (\<lambda>_.
     eff_bind (eff_check (check_entitlements sv ''deltalake'')) (\<lambda>_.
     eff_bind (eff_of (read_schema rs schema)) (\<lambda>(schema', api_schema).
     eff_bind (eff_of (internal_connector_mode rs mode_name)) (\<lambda>m.
     let data_storage =
           \<lparr>storage_type = ''deltalake'', path = uri,
            storage_options = Omitted, min_commit_frequency = Omitted,
            mode = Given m, persistent_id = Given persistent\<rparr> in
     eff_bind (eff_log (SourceStorageBuilt data_storage)) (\<lambda>_.
     let data_format =
           \<lparr>schema_format_type = ''transparent'', schema_kwargs = api_schema\<rparr> in
     eff_bind (eff_log (SourceFormatBuilt data_format)) (\<lambda>_.
     let src =
           \<lparr>datastorage = data_storage, dataformat = data_format,
            source_schema = schema',
            source_options = \<lparr>commit_duration_ms = autocommit_duration_ms\<rparr>,
            datasource_name = ''deltalake'', append_only = True\<rparr> in
     eff_bind (eff_log (TableFromDatasource src debug_data)) (\<lambda>_.
     eff_return \<lparr>table_source = src, table_debug_data = debug_data\<rparr>)))))))"

text \<open>
  \<^verbatim>\<open>read(uri, schema, *, mode="streaming", autocommit_duration_ms=1500,
  persistent_id=None, debug_data=None)\<close>.
\<close>

definition deltalake_read ::
  "services \<Rightarrow> ('s, 'a) schema_services \<Rightarrow> string \<Rightarrow> 's \<Rightarrow> string kwarg
     \<Rightarrow> int option kwarg \<Rightarrow> string option kwarg \<Rightarrow> 'd option kwarg
     \<Rightarrow> (('s, 'a, 'd) read_event, ('s, 'a, 'd) source_table) eff" where
  "deltalake_read sv rs uri schema mode_name autocommit_duration_ms persistent debug_data =
     read_body sv rs uri schema
       (kwarg_default ''streaming'' mode_name)
       (kwarg_default (Some 1500) autocommit_duration_ms)
       (kwarg_default None persistent)
       (kwarg_default None debug_data)"

text \<open>What a run of \<^verbatim>\<open>read\<close> left in the log.\<close>

fun source_storages_built :: "('s, 'a, 'd) read_event list \<Rightarrow> data_storage list" where
  "source_storages_built [] = []"
| "source_storages_built (SourceStorageBuilt s # es) = s # source_storages_built es"
| "source_storages_built (_ # es) = source_storages_built es"

fun source_formats_built :: "('s, 'a, 'd) read_event list \<Rightarrow> 'a schema_format list" where
  "source_formats_built [] = []"
| "source_formats_built (SourceFormatBuilt f # es) = f # source_formats_built es"
| "source_formats_built (_ # es) = source_formats_built es"

fun tables_produced :: "('s, 'a, 'd) read_event list \<Rightarrow> ('s, 'a) data_source list" where
  "tables_produced [] = []"
| "tables_produced (TableFromDatasource src d # es) = src # tables_produced es"
| "tables_produced (_ # es) = tables_produced es"

section \<open>Helpers and engine behaviour that this module relies on\<close>

text \<open>
  The definitions of this section are not translations of this module. Each stands for
  code that the module calls or configures and that lives elsewhere.
\<close>

subsection \<open>The write-side value fields\<close>

text \<open>
  Modelled from the spec: \<^verbatim>\<open>_format_output_value_fields\<close> of
  \<^verbatim>\<open>pathway.internals._io_helpers\<close>, which \<^verbatim>\<open>write\<close> calls at line 232 and which is not
  part of this module. Section 4.2, write direction: the value-field list is the
  table's columns plus the two reserved metadata columns \<^verbatim>\<open>time\<close> and \<^verbatim>\<open>diff\<close> (both
  integers, section 3), and construction fails with \<^verbatim>\<open>SchemaError\<close> when the table already
  has a column literally named \<^verbatim>\<open>time\<close> or \<^verbatim>\<open>diff\<close>.
\<close>

definition reserved_fields :: "value_field list" where
  "reserved_fields = [ValueField ''time'' ''int'', ValueField ''diff'' ''int'']"

fun reserved_name_collision :: "column list \<Rightarrow> bool" where
  "reserved_name_collision [] = False"
| "reserved_name_collision ((name, ty) # cs) =
     (name = ''time'' \<or> name = ''diff'' \<or> reserved_name_collision cs)"

fun column_field :: "column \<Rightarrow> value_field" where
  "column_field (name, ty) = ValueField name ty"

definition format_output_value_fields_spec :: "table \<Rightarrow> error + value_field list" where
  "format_output_value_fields_spec tbl =
     (if reserved_name_collision (columns tbl) then Inl SchemaError
      else Inr (map column_field (columns tbl) @ reserved_fields))"

subsection \<open>Credentials\<close>

text \<open>
  Modelled from the spec: \<^verbatim>\<open>AwsS3Settings.new_from_path\<close> of \<^verbatim>\<open>pathway.io.s3\<close>, which
  \<^verbatim>\<open>write\<close> calls at line 220 and which is not part of this module. Sections 4.1 and 6:
  credential discovery answers with settings or with \<^verbatim>\<open>NotFound\<close>; resolution fails with
  \<^verbatim>\<open>ConfigurationError\<close> if the URI is malformed or if the credentials cannot be resolved.
  The spec does not say which URIs are malformed, so that test is a parameter.
\<close>

datatype discovery = NotFound | Found aws_s3_settings

definition new_from_path_spec ::
  "(string \<Rightarrow> bool) \<Rightarrow> discovery \<Rightarrow> string \<Rightarrow> error + aws_s3_settings" where
  "new_from_path_spec malformed ambient uri =
     (if malformed uri then Inl ConfigurationError
      else case ambient of
             NotFound \<Rightarrow> Inl ConfigurationError
           | Found s \<Rightarrow> Inr s)"

text \<open>
  Modelled from the spec: \<^verbatim>\<open>AwsS3Settings.as_deltalake_storage_options\<close> of
  \<^verbatim>\<open>pathway.io.s3\<close>, called at line 221 and not part of this module. Section 4.1: the
  connector assembles an options map (\<^verbatim>\<open>access_key\<close>, \<^verbatim>\<open>secret_key\<close>, custom \<^verbatim>\<open>endpoint\<close>,
  \<^verbatim>\<open>region\<close>) from the settings. It is used below only to run \<^verbatim>\<open>write\<close> on concrete
  inputs.
\<close>

definition as_deltalake_storage_options_spec :: "aws_s3_settings \<Rightarrow> (string \<rightharpoonup> string)" where
  "as_deltalake_storage_options_spec s =
     (Map.empty)(''access_key'' := access_key s,
                 ''secret_key'' := secret_access_key s,
                 ''endpoint'' := endpoint s,
                 ''region'' := region s)"

subsection \<open>The engine's reader and its commit pacing\<close>

text \<open>
  Modelled from the spec: the engine's Delta Lake reader, which consumes the data source
  that \<^verbatim>\<open>read\<close> configures and which is not part of this module. Sections 3 and 4.3: a
  change event carries a key, the row's values, a time and a diff; each polled batch of
  physical rows is turned into events, every row wrapped as an event with diff \<open>+1\<close>.
\<close>

record 'r change_event =
  ev_key :: "string option"
  ev_values :: 'r
  ev_time :: int
  ev_diff :: int

definition wrap_row :: "int \<Rightarrow> string option \<times> 'r \<Rightarrow> 'r change_event" where
  "wrap_row t row = \<lparr>ev_key = fst row, ev_values = snd row, ev_time = t, ev_diff = 1\<rparr>"

fun read_pipeline :: "(int \<times> (string option \<times> 'r) list) list \<Rightarrow> 'r change_event list" where
  "read_pipeline [] = []"
| "read_pipeline ((t, rows) # polls) = map (wrap_row t) rows @ read_pipeline polls"

text \<open>
  Modelled from the spec: the engine's pacing of commits, not part of this module.
  Section 3, read side: accumulated rows are flushed every \<^verbatim>\<open>autocommitIntervalMs\<close>, and
  as soon as possible when it is \<^verbatim>\<open>None\<close>. Section 4.4, write side: a commit is issued at a
  minibatch boundary when at least \<^verbatim>\<open>minCommitIntervalMs\<close> has elapsed since the previous
  commit, and at every boundary when it is absent or zero.
\<close>

definition flush_due :: "int option \<Rightarrow> int \<Rightarrow> bool" where
  "flush_due autocommit_interval elapsed =
     (case autocommit_interval of None \<Rightarrow> True | Some d \<Rightarrow> d \<le> elapsed)"

definition commit_due :: "int option \<Rightarrow> bool \<Rightarrow> int \<Rightarrow> bool" where
  "commit_due min_commit_interval boundary elapsed =
     (boundary \<and>
      (case min_commit_interval of None \<Rightarrow> True | Some m \<Rightarrow> m = 0 \<or> m \<le> elapsed))"

section \<open>Sample inputs\<close>

text \<open>
  Concrete helpers, tables and settings on which the theorems below are run: the
  key-value table and the S3 settings of the docstrings, a licence that grants every
  entitlement and one that grants none, no ambient credentials.
\<close>

definition sample_table :: table where
  "sample_table = \<lparr>columns = [(''key'', ''str''), (''value'', ''str'')]\<rparr>"

definition clashing_table :: table where
  "clashing_table = \<lparr>columns = [(''key'', ''str''), (''time'', ''int'')]\<rparr>"

definition sample_settings :: aws_s3_settings where
  "sample_settings =
     \<lparr>bucket_name = Some ''logs'', region = Some ''eu-west-3'',
      access_key = Some ''AKIA'', secret_access_key = Some ''secret'',
      endpoint = None\<rparr>"

definition no_uri_malformed :: "string \<Rightarrow> bool" where
  "no_uri_malformed uri = False"

definition sample_services :: services where
  "sample_services =
     \<lparr>check_entitlements = (\<lambda>name. None),
      new_from_path = new_from_path_spec no_uri_malformed NotFound,
      as_deltalake_storage_options = as_deltalake_storage_options_spec,
      format_output_value_fields = format_output_value_fields_spec\<rparr>"

definition unlicensed_services :: services where
  "unlicensed_services =
     sample_services\<lparr>check_entitlements := (\<lambda>name. Some EntitlementError)\<rparr>"

definition sample_schema_services :: "(column list, column list) schema_services" where
  "sample_schema_services =
     \<lparr>read_schema = (\<lambda>schema. Inr (schema, schema)),
      internal_connector_mode =
        (\<lambda>name. if name = ''streaming'' then Inr Streaming
                else if name = ''static'' then Inr Static
                else Inl (OtherError ''ValueError''))\<rparr>"

definition sample_schema :: "column list" where
  "sample_schema = [(''key'', ''str''), (''value'', ''str'')]"

section \<open>Properties\<close>

subsection \<open>Running the effects\<close>

lemma eff_bind_return: "eff_bind (eff_return x) f log = f x log"
  by (simp add: eff_bind_def eff_return_def)

lemma eff_bind_raise: "eff_bind (eff_raise e) f log = (Inl e, log)"
  by (simp add: eff_bind_def eff_raise_def)

lemma eff_bind_log: "eff_bind (eff_log ev) f log = f () (log @ [ev])"
  by (simp add: eff_bind_def eff_log_def)

lemmas eff_defs =
  eff_return_def eff_raise_def eff_log_def eff_of_def eff_bind_def eff_check_def

subsection \<open>The three ways through lines 217 to 221\<close>

lemma is_s3_uri_prefix: "is_s3_uri uri = prefix ''s3://'' uri"
  by (simp add: is_s3_uri_def S3_URI_PREFIX_def)

lemma resolve_not_s3:
  "\<not> prefix ''s3://'' uri \<Longrightarrow>
   resolve_storage_options sv uri s log = (Inr Map.empty, log)"
  by (simp add: resolve_storage_options_def is_s3_uri_prefix eff_return_def)

lemma resolve_explicit:
  "prefix ''s3://'' uri \<Longrightarrow>
   resolve_storage_options sv uri (Some s) log =
     (Inr (as_deltalake_storage_options sv s), log)"
  by (simp add: resolve_storage_options_def is_s3_uri_prefix eff_bind_return)
     (simp add: eff_return_def)

lemma resolve_discover:
  "prefix ''s3://'' uri \<Longrightarrow>
   resolve_storage_options sv uri None log =
     (case new_from_path sv uri of
        Inl e \<Rightarrow> (Inl e, log @ [NewFromPath uri])
      | Inr s \<Rightarrow> (Inr (as_deltalake_storage_options sv s), log @ [NewFromPath uri]))"
  by (simp add: resolve_storage_options_def is_s3_uri_prefix eff_defs split: sum.splits)

subsection \<open>The runs of \<^verbatim>\<open>write\<close> and \<^verbatim>\<open>read\<close>, by the outcome of each helper\<close>

lemma write_body_unlicensed:
  "check_entitlements sv ''deltalake'' = Some e \<Longrightarrow>
   write_body sv tbl uri s m log = (Inl e, log @ [CheckEntitlements ''deltalake''])"
  by (simp add: write_body_def eff_defs)

lemma write_body_unresolved:
  "check_entitlements sv ''deltalake'' = None \<Longrightarrow>
   resolve_storage_options sv uri s (log @ [CheckEntitlements ''deltalake'']) = (Inl e, log') \<Longrightarrow>
   write_body sv tbl uri s m log = (Inl e, log')"
  by (simp add: write_body_def eff_defs)

lemma write_body_resolved:
  "check_entitlements sv ''deltalake'' = None \<Longrightarrow>
   resolve_storage_options sv uri s (log @ [CheckEntitlements ''deltalake'']) = (Inr opts, log') \<Longrightarrow>
   write_body sv tbl uri s m log =
     (let ds = \<lparr>storage_type = ''deltalake'', path = uri, storage_options = Given opts,
                min_commit_frequency = Given m, mode = Omitted, persistent_id = Omitted\<rparr>
      in case format_output_value_fields sv tbl of
           Inl e \<Rightarrow> (Inl e, log' @ [DataStorageBuilt ds])
         | Inr vfs \<Rightarrow>
             (let df = \<lparr>format_type = ''identity'', key_field_names = None,
                        value_fields = vfs\<rparr>
              in (Inr (), log' @ [DataStorageBuilt ds, DataFormatBuilt df,
                    TableTo tbl \<lparr>sink_storage = ds, sink_format = df,
                                 datasink_name = ''deltalake''\<rparr>])))"
  by (simp add: write_body_def eff_defs Let_def split: sum.splits)

lemma read_body_unlicensed:
  "check_entitlements sv ''deltalake'' = Some e \<Longrightarrow>
   read_body sv rs uri schema md ac pid dbg log =
     (Inl e, log @ [ReadCheckEntitlements ''deltalake''])"
  by (simp add: read_body_def eff_defs)

lemma read_body_licensed:
  "check_entitlements sv ''deltalake'' = None \<Longrightarrow>
   read_body sv rs uri schema md ac pid dbg log =
     (case read_schema rs schema of
        Inl e \<Rightarrow> (Inl e, log @ [ReadCheckEntitlements ''deltalake''])
      | Inr (schema', api_schema) \<Rightarrow>
          (case internal_connector_mode rs md of
             Inl e \<Rightarrow> (Inl e, log @ [ReadCheckEntitlements ''deltalake''])
           | Inr cm \<Rightarrow>
               (let ds = \<lparr>storage_type = ''deltalake'', path = uri,
                          storage_options = Omitted, min_commit_frequency = Omitted,
                          mode = Given cm, persistent_id = Given pid\<rparr>;
                    df = \<lparr>schema_format_type = ''transparent'',
                          schema_kwargs = api_schema\<rparr>;
                    src = \<lparr>datastorage = ds, dataformat = df, source_schema = schema',
                           source_options = \<lparr>commit_duration_ms = ac\<rparr>,
                           datasource_name = ''deltalake'', append_only = True\<rparr>
                in (Inr \<lparr>table_source = src, table_debug_data = dbg\<rparr>,
                    log @ [ReadCheckEntitlements ''deltalake'', SourceStorageBuilt ds,
                           SourceFormatBuilt df, TableFromDatasource src dbg]))))"
  by (simp add: read_body_def eff_defs Let_def split: sum.splits prod.splits)

subsection \<open>What every run of \<^verbatim>\<open>write\<close> and \<^verbatim>\<open>read\<close> leaves in the log\<close>

lemmas unfold_write =
  write_body_def resolve_storage_options_def eff_defs Let_def

lemmas unfold_read =
  read_body_def eff_defs Let_def

lemma write_body_formats:
  "formats_built (snd (write_body sv tbl uri s m [])) =
     (case format_output_value_fields sv tbl of
        Inl e \<Rightarrow> []
      | Inr vfs \<Rightarrow>
          if storages_built (snd (write_body sv tbl uri s m [])) = [] then []
          else [\<lparr>format_type = ''identity'', key_field_names = None, value_fields = vfs\<rparr>])"
  by (simp add: unfold_write split: option.splits sum.splits prod.splits)

lemma write_body_sinks:
  "map sink_format (sinks_registered (snd (write_body sv tbl uri s m []))) =
     formats_built (snd (write_body sv tbl uri s m []))"
  by (simp add: unfold_write split: option.splits sum.splits prod.splits)

lemma write_body_outcome:
  "storages_built (snd (write_body sv tbl uri s m [])) \<noteq> [] \<Longrightarrow>
   fst (write_body sv tbl uri s m []) =
     (case format_output_value_fields sv tbl of Inl e \<Rightarrow> Inl e | Inr vfs \<Rightarrow> Inr ())"
  by (auto simp add: unfold_write split: option.splits sum.splits prod.splits if_splits)

lemma write_body_success:
  "fst (write_body sv tbl uri s m []) = Inr () \<Longrightarrow>
   storages_built (snd (write_body sv tbl uri s m [])) \<noteq> []"
  by (simp add: unfold_write split: option.splits sum.splits prod.splits if_splits)

lemma write_body_storages_cong:
  "check_entitlements sv1 = check_entitlements sv2 \<Longrightarrow>
   new_from_path sv1 = new_from_path sv2 \<Longrightarrow>
   as_deltalake_storage_options sv1 = as_deltalake_storage_options sv2 \<Longrightarrow>
   storages_built (snd (write_body sv1 t1 uri s m [])) =
   storages_built (snd (write_body sv2 t2 uri s m []))"
  by (simp add: unfold_write split: option.splits sum.splits prod.splits)

lemma write_body_min_commit_frequency:
  "ds \<in> set (storages_built (snd (write_body sv tbl uri s m []))) \<Longrightarrow>
   min_commit_frequency ds = Given m"
  by (auto simp add: unfold_write split: option.splits sum.splits prod.splits if_splits)

lemma write_body_first:
  "take 1 (snd (write_body sv tbl uri s m [])) = [CheckEntitlements ''deltalake'']"
  by (simp add: unfold_write split: option.splits sum.splits prod.splits)

lemma read_body_first:
  "take 1 (snd (read_body sv rs uri schema md ac pid dbg [])) =
     [ReadCheckEntitlements ''deltalake'']"
  by (simp add: unfold_read split: option.splits sum.splits prod.splits)

lemma read_body_tables:
  "src \<in> set (tables_produced (snd (read_body sv rs uri schema md ac pid dbg []))) \<Longrightarrow>
   append_only src \<and> commit_duration_ms (source_options src) = ac"
  by (auto simp add: unfold_read split: option.splits sum.splits prod.splits if_splits)

lemma read_body_result:
  "fst (read_body sv rs uri schema md ac pid dbg []) = Inr t \<Longrightarrow>
   tables_produced (snd (read_body sv rs uri schema md ac pid dbg [])) = [table_source t]"
  by (auto simp add: unfold_read split: option.splits sum.splits prod.splits if_splits)

subsection \<open>The prefix test\<close>

lemma prefix_take5: "prefix ''s3://'' uri = (take 5 uri = ''s3://'')"
proof
  assume "prefix ''s3://'' uri"
  then obtain zs where "uri = ''s3://'' @ zs" by (auto simp: prefix_def)
  then show "take 5 uri = ''s3://''" by simp
next
  assume "take 5 uri = ''s3://''"
  then have "uri = ''s3://'' @ drop 5 uri" by (metis append_take_drop_id)
  then show "prefix ''s3://'' uri" by (metis prefixI)
qed

subsection \<open>The modelled helpers\<close>

lemma reserved_name_collision_iff:
  "reserved_name_collision cs \<longleftrightarrow> ''time'' \<in> fst ` set cs \<or> ''diff'' \<in> fst ` set cs"
  by (induction cs) auto

lemma read_pipeline_diff: "ev \<in> set (read_pipeline polls) \<Longrightarrow> ev_diff ev = 1"
  by (induction polls rule: read_pipeline.induct) (auto simp add: wrap_row_def)

lemma read_pipeline_values:
  "map ev_values (read_pipeline polls) = concat (map (\<lambda>p. map snd (snd p)) polls)"
  by (induction polls rule: read_pipeline.induct) (simp_all add: wrap_row_def comp_def)

subsection \<open>The sample helpers\<close>

lemma sample_built:
  "storages_built (snd (deltalake_write sample_services tbl ''./local-lake'' s m [])) \<noteq> []"
  by (simp add: deltalake_write_def sample_services_def
        write_body_resolved [OF _ resolve_not_s3] Let_def split: sum.splits)

lemma sample_licensed: "check_entitlements sample_services ''deltalake'' = None"
  by (simp add: sample_services_def)

lemma unlicensed_refused:
  "check_entitlements unlicensed_services ''deltalake'' = Some EntitlementError"
  by (simp add: unlicensed_services_def sample_services_def)

section \<open>The claims\<close>

subsection \<open>Where the URI is not an \<^verbatim>\<open>s3://\<close> URI\<close>

text \<open>
  Claim C9. For every URI that does not begin with \<^verbatim>\<open>s3://\<close>, \<^verbatim>\<open>write\<close> passes an empty
  options map to the storage service, and the \<^verbatim>\<open>s3_connection_settings\<close> argument has no
  effect: two calls that differ only in it run identically, and the one
  \<^verbatim>\<open>DataStorage\<close> they build (when the entitlement check passes) carries the empty map.
\<close>

theorem non_s3_uri_ignores_settings:
  assumes "\<not> prefix ''s3://'' uri"
  shows "deltalake_write sv tbl uri s1 m = deltalake_write sv tbl uri s2 m
       \<and> storages_built (snd (deltalake_write sv tbl uri s1 m [])) =
           (if check_entitlements sv ''deltalake'' = None
            then [\<lparr>storage_type = ''deltalake'', path = uri,
                   storage_options = Given Map.empty,
                   min_commit_frequency = Given (kwarg_default (Some 60000) m),
                   mode = Omitted, persistent_id = Omitted\<rparr>]
            else [])"
proof (cases "check_entitlements sv ''deltalake''")
  case None
  show ?thesis
    using assms None
    by (auto simp add: deltalake_write_def fun_eq_iff
          write_body_resolved [OF None resolve_not_s3] Let_def split: sum.splits)
next
  case (Some e)
  then show ?thesis
    by (simp add: deltalake_write_def fun_eq_iff write_body_unlicensed)
qed

theorem non_s3_uri_ignores_settings_witness:
  "\<not> prefix ''s3://'' ''./local-lake''
   \<and> deltalake_write sample_services sample_table ''./local-lake''
         (Given (Some sample_settings)) Omitted
       = deltalake_write sample_services sample_table ''./local-lake'' Omitted Omitted
   \<and> map storage_options
         (storages_built (snd (deltalake_write sample_services sample_table ''./local-lake''
            (Given (Some sample_settings)) Omitted [])))
       = [Given Map.empty]"
proof -
  have h: "\<not> prefix ''s3://'' ''./local-lake''" by simp
  note run = non_s3_uri_ignores_settings
    [OF h, of sample_services sample_table "Given (Some sample_settings)" Omitted Omitted]
  have opts: "map storage_options
         (storages_built (snd (deltalake_write sample_services sample_table ''./local-lake''
            (Given (Some sample_settings)) Omitted [])))
       = [Given Map.empty]"
    using conjunct2 [OF run] by (simp add: sample_licensed)
  show ?thesis by (intro conjI h conjunct1 [OF run] opts)
qed

subsection \<open>Where the URI is an \<^verbatim>\<open>s3://\<close> URI\<close>

text \<open>
  Claim C4. For every URI beginning with \<^verbatim>\<open>s3://\<close>: when explicit settings are passed,
  the options map of the \<^verbatim>\<open>DataStorage\<close> is \<^verbatim>\<open>as_deltalake_storage_options\<close> of those
  settings; and \<^verbatim>\<open>new_from_path\<close> is called (once, on the URI) exactly when the entitlement
  check has passed and the settings are absent, so never when they are explicit.
\<close>

theorem explicit_settings_bypass_discovery:
  assumes "prefix ''s3://'' uri"
  shows "storages_built (snd (deltalake_write sv tbl uri (Given (Some s)) m [])) =
           (if check_entitlements sv ''deltalake'' = None
            then [\<lparr>storage_type = ''deltalake'', path = uri,
                   storage_options = Given (as_deltalake_storage_options sv s),
                   min_commit_frequency = Given (kwarg_default (Some 60000) m),
                   mode = Omitted, persistent_id = Omitted\<rparr>]
            else [])
       \<and> discoveries (snd (deltalake_write sv tbl uri s' m [])) =
           (if check_entitlements sv ''deltalake'' = None \<and> kwarg_default None s' = None
            then [uri] else [])"
proof (cases "check_entitlements sv ''deltalake''")
  case (Some e)
  then show ?thesis
    by (simp add: deltalake_write_def write_body_unlicensed)
next
  case None
  have explicit:
    "storages_built (snd (write_body sv tbl uri (Some x) (kwarg_default (Some 60000) m) [])) =
       [\<lparr>storage_type = ''deltalake'', path = uri,
         storage_options = Given (as_deltalake_storage_options sv x),
         min_commit_frequency = Given (kwarg_default (Some 60000) m),
         mode = Omitted, persistent_id = Omitted\<rparr>]
     \<and> discoveries (snd (write_body sv tbl uri (Some x) (kwarg_default (Some 60000) m) [])) = []"
    for x
    by (simp add: write_body_resolved [OF None resolve_explicit [OF assms]] Let_def
          split: sum.splits)
  have absent:
    "discoveries (snd (write_body sv tbl uri None (kwarg_default (Some 60000) m) [])) = [uri]"
  proof (cases "new_from_path sv uri")
    case (Inl e)
    have "resolve_storage_options sv uri None ([] @ [CheckEntitlements ''deltalake'']) =
            (Inl e, [CheckEntitlements ''deltalake'', NewFromPath uri])"
      by (simp add: resolve_discover [OF assms] Inl)
    from write_body_unresolved [OF None this] show ?thesis by simp
  next
    case (Inr x)
    have "resolve_storage_options sv uri None ([] @ [CheckEntitlements ''deltalake'']) =
            (Inr (as_deltalake_storage_options sv x),
             [CheckEntitlements ''deltalake'', NewFromPath uri])"
      by (simp add: resolve_discover [OF assms] Inr)
    from write_body_resolved [OF None this] show ?thesis
      by (simp add: Let_def split: sum.splits)
  qed
  show ?thesis
    using None explicit absent
    by (cases "kwarg_default None s'") (simp_all add: deltalake_write_def)
qed

theorem explicit_settings_bypass_discovery_witness:
  "prefix ''s3://'' ''s3://logs/access-log/''
   \<and> map storage_options
         (storages_built (snd (deltalake_write sample_services sample_table
            ''s3://logs/access-log/'' (Given (Some sample_settings)) Omitted [])))
       = [Given (as_deltalake_storage_options_spec sample_settings)]
   \<and> discoveries (snd (deltalake_write sample_services sample_table
         ''s3://logs/access-log/'' (Given (Some sample_settings)) Omitted [])) = []
   \<and> discoveries (snd (deltalake_write sample_services sample_table
         ''s3://logs/access-log/'' Omitted Omitted [])) = [''s3://logs/access-log/'']"
proof -
  have h: "prefix ''s3://'' ''s3://logs/access-log/''" by simp
  note explicit = explicit_settings_bypass_discovery
    [OF h, of sample_services sample_table sample_settings Omitted
       "Given (Some sample_settings)"]
  note absent = explicit_settings_bypass_discovery
    [OF h, of sample_services sample_table sample_settings Omitted Omitted]
  have a: "map storage_options
         (storages_built (snd (deltalake_write sample_services sample_table
            ''s3://logs/access-log/'' (Given (Some sample_settings)) Omitted [])))
       = [Given (as_deltalake_storage_options_spec sample_settings)]"
    using conjunct1 [OF explicit] by (simp add: sample_licensed) (simp add: sample_services_def)
  have b: "discoveries (snd (deltalake_write sample_services sample_table
         ''s3://logs/access-log/'' (Given (Some sample_settings)) Omitted [])) = []"
    using conjunct2 [OF explicit] by simp
  have c: "discoveries (snd (deltalake_write sample_services sample_table
         ''s3://logs/access-log/'' Omitted Omitted [])) = [''s3://logs/access-log/'']"
    using conjunct2 [OF absent] by (simp add: sample_licensed)
  show ?thesis by (intro conjI h a b c)
qed

text \<open>
  Claim C3 (helper modelled from the spec). For every URI beginning with \<^verbatim>\<open>s3://\<close>, when no
  explicit settings are passed and credential discovery finds nothing, \<^verbatim>\<open>write\<close> fails: no
  \<^verbatim>\<open>DataStorage\<close> is built and no sink is registered, and once the entitlement check has
  passed the error is \<^verbatim>\<open>ConfigurationError\<close>, raised right after the call of
  \<^verbatim>\<open>new_from_path\<close>.
\<close>

theorem s3_without_credentials_fails_before_storage:
  assumes "prefix ''s3://'' uri"
      and "s = Omitted \<or> s = Given None"
      and "new_from_path sv = new_from_path_spec malformed NotFound"
  shows "fst (deltalake_write sv tbl uri s m []) \<noteq> Inr ()
       \<and> storages_built (snd (deltalake_write sv tbl uri s m [])) = []
       \<and> sinks_registered (snd (deltalake_write sv tbl uri s m [])) = []
       \<and> (check_entitlements sv ''deltalake'' = None \<longrightarrow>
            deltalake_write sv tbl uri s m [] =
              (Inl ConfigurationError, [CheckEntitlements ''deltalake'', NewFromPath uri]))"
proof (cases "check_entitlements sv ''deltalake''")
  case (Some e)
  then show ?thesis
    by (simp add: deltalake_write_def write_body_unlicensed)
next
  case None
  have absent: "kwarg_default None s = None"
    using assms(2) by auto
  have "new_from_path sv uri = Inl ConfigurationError"
    by (simp add: assms(3) new_from_path_spec_def)
  then have "resolve_storage_options sv uri None ([] @ [CheckEntitlements ''deltalake'']) =
          (Inl ConfigurationError, [CheckEntitlements ''deltalake'', NewFromPath uri])"
    by (simp add: resolve_discover [OF assms(1)])
  from write_body_unresolved [OF None this] show ?thesis
    by (simp add: deltalake_write_def absent)
qed

theorem s3_without_credentials_fails_before_storage_witness:
  "prefix ''s3://'' ''s3://bucket/path''
   \<and> new_from_path sample_services = new_from_path_spec no_uri_malformed NotFound
   \<and> deltalake_write sample_services sample_table ''s3://bucket/path'' Omitted Omitted [] =
       (Inl ConfigurationError,
        [CheckEntitlements ''deltalake'', NewFromPath ''s3://bucket/path''])"
proof -
  have h: "prefix ''s3://'' ''s3://bucket/path''" by simp
  have n: "new_from_path sample_services = new_from_path_spec no_uri_malformed NotFound"
    by (simp add: sample_services_def)
  have a: "(Omitted :: aws_s3_settings option kwarg) = Omitted \<or> Omitted = Given None"
    by simp
  from s3_without_credentials_fails_before_storage [OF h a n, of sample_table Omitted]
    sample_licensed h n
  show ?thesis by simp
qed

subsection \<open>The \<^verbatim>\<open>s3a://\<close> prefix\<close>

text \<open>
  Claim C1. The claim, like the docstring of \<^verbatim>\<open>write\<close>, counts a URI that begins with
  \<^verbatim>\<open>s3a://\<close> as S3 storage. The test of line 218 is on \<^verbatim>\<open>s3://\<close> alone: on
  \<^verbatim>\<open>s3a://logs/access-log/\<close> it is false, the options map is empty whatever settings are
  passed, and the \<^verbatim>\<open>DataStorage\<close> built from the docstring's own settings carries no
  option.
\<close>

theorem s3a_uri_takes_the_filesystem_branch:
  "\<not> is_s3_uri ''s3a://logs/access-log/''
   \<and> resolve_storage_options sv ''s3a://logs/access-log/'' s log = (Inr Map.empty, log)
   \<and> storages_built (snd (deltalake_write sample_services sample_table
         ''s3a://logs/access-log/'' (Given (Some sample_settings)) Omitted []))
       = [\<lparr>storage_type = ''deltalake'', path = ''s3a://logs/access-log/'',
           storage_options = Given Map.empty,
           min_commit_frequency = Given (Some 60000),
           mode = Omitted, persistent_id = Omitted\<rparr>]"
proof -
  have n: "\<not> prefix ''s3://'' ''s3a://logs/access-log/''" by simp
  show ?thesis
    using n by (simp add: is_s3_uri_prefix resolve_not_s3 deltalake_write_def
       write_body_resolved [OF sample_licensed resolve_not_s3] Let_def split: sum.splits)
qed

subsection \<open>The write-side format descriptor\<close>

text \<open>
  Claim C2 (helper modelled from the spec). For every table with a column named \<^verbatim>\<open>time\<close>
  or \<^verbatim>\<open>diff\<close>, whatever its other columns, building the value fields fails with
  \<^verbatim>\<open>SchemaError\<close>; so \<^verbatim>\<open>write\<close> builds no \<^verbatim>\<open>DataFormat\<close>, registers no sink and fails, with
  \<^verbatim>\<open>SchemaError\<close> whenever it got as far as building the \<^verbatim>\<open>DataStorage\<close>.
\<close>

theorem reserved_column_fails_with_SchemaError:
  assumes "''time'' \<in> fst ` set (columns tbl) \<or> ''diff'' \<in> fst ` set (columns tbl)"
      and "format_output_value_fields sv = format_output_value_fields_spec"
  shows "format_output_value_fields_spec tbl = Inl SchemaError
       \<and> formats_built (snd (deltalake_write sv tbl uri s m [])) = []
       \<and> sinks_registered (snd (deltalake_write sv tbl uri s m [])) = []
       \<and> fst (deltalake_write sv tbl uri s m []) \<noteq> Inr ()
       \<and> (storages_built (snd (deltalake_write sv tbl uri s m [])) \<noteq> [] \<longrightarrow>
            fst (deltalake_write sv tbl uri s m []) = Inl SchemaError)"
proof -
  have fails: "format_output_value_fields_spec tbl = Inl SchemaError"
    using assms(1)
    by (simp add: format_output_value_fields_spec_def reserved_name_collision_iff)
  then have helper: "format_output_value_fields sv tbl = Inl SchemaError"
    by (simp add: assms(2))
  have no_format: "formats_built (snd (write_body sv tbl uri s0 m0 [])) = []" for s0 m0
    by (simp add: write_body_formats helper)
  have no_sink: "sinks_registered (snd (write_body sv tbl uri s0 m0 [])) = []" for s0 m0
    using write_body_sinks [of sv tbl uri s0 m0] by (simp add: no_format)
  have error: "fst (write_body sv tbl uri s0 m0 []) \<noteq> Inr ()" for s0 m0
    using write_body_success [of sv tbl uri s0 m0] write_body_outcome [of sv tbl uri s0 m0]
    by (auto simp add: helper)
  have schema_error:
    "storages_built (snd (write_body sv tbl uri s0 m0 [])) \<noteq> [] \<Longrightarrow>
     fst (write_body sv tbl uri s0 m0 []) = Inl SchemaError" for s0 m0
    using write_body_outcome [of sv tbl uri s0 m0] by (simp add: helper)
  show ?thesis
    using fails no_format no_sink error schema_error by (simp add: deltalake_write_def)
qed

theorem reserved_column_fails_with_SchemaError_witness:
  "(''time'' \<in> fst ` set (columns clashing_table)
      \<or> ''diff'' \<in> fst ` set (columns clashing_table))
   \<and> format_output_value_fields sample_services = format_output_value_fields_spec
   \<and> format_output_value_fields_spec clashing_table = Inl SchemaError
   \<and> fst (deltalake_write sample_services clashing_table ''./local-lake'' Omitted Omitted [])
       = Inl SchemaError
   \<and> sinks_registered
         (snd (deltalake_write sample_services clashing_table ''./local-lake'' Omitted Omitted []))
       = []"
proof -
  have h: "''time'' \<in> fst ` set (columns clashing_table)
             \<or> ''diff'' \<in> fst ` set (columns clashing_table)"
    by (simp add: clashing_table_def)
  have f: "format_output_value_fields sample_services = format_output_value_fields_spec"
    by (simp add: sample_services_def)
  note run = reserved_column_fails_with_SchemaError [OF h f, of "''./local-lake''" Omitted Omitted]
  from run sample_built [of clashing_table Omitted Omitted] show ?thesis using h f by simp
qed

text \<open>
  Claim C5 (value fields modelled from the spec). Every format descriptor that \<^verbatim>\<open>write\<close>
  builds has format type \<^verbatim>\<open>identity\<close>, no key field names, and as value fields the
  table's columns followed by the two reserved columns \<^verbatim>\<open>time\<close> and \<^verbatim>\<open>diff\<close>; and for a
  table without a reserved column name, exactly this one descriptor is built as soon as
  the \<^verbatim>\<open>DataStorage\<close> has been.
\<close>

theorem write_format_descriptor:
  assumes "format_output_value_fields sv = format_output_value_fields_spec"
  shows "(\<forall>f \<in> set (formats_built (snd (deltalake_write sv tbl uri s m []))).
            format_type f = ''identity'' \<and> key_field_names f = None
          \<and> value_fields f = map column_field (columns tbl)
                                @ [ValueField ''time'' ''int'', ValueField ''diff'' ''int''])
       \<and> (''time'' \<notin> fst ` set (columns tbl) \<and> ''diff'' \<notin> fst ` set (columns tbl)
          \<and> storages_built (snd (deltalake_write sv tbl uri s m [])) \<noteq> [] \<longrightarrow>
            formats_built (snd (deltalake_write sv tbl uri s m [])) =
              [\<lparr>format_type = ''identity'', key_field_names = None,
                value_fields = map column_field (columns tbl)
                                 @ [ValueField ''time'' ''int'', ValueField ''diff'' ''int'']\<rparr>])"
  by (simp add: deltalake_write_def write_body_formats assms
        format_output_value_fields_spec_def reserved_name_collision_iff reserved_fields_def)

theorem write_format_descriptor_witness:
  "format_output_value_fields sample_services = format_output_value_fields_spec
   \<and> formats_built
         (snd (deltalake_write sample_services sample_table ''./local-lake'' Omitted Omitted []))
       = [\<lparr>format_type = ''identity'', key_field_names = None,
           value_fields = [ValueField ''key'' ''str'', ValueField ''value'' ''str'',
                           ValueField ''time'' ''int'', ValueField ''diff'' ''int'']\<rparr>]"
proof -
  have f: "format_output_value_fields sample_services = format_output_value_fields_spec"
    by (simp add: sample_services_def)
  from conjunct2 [OF write_format_descriptor
                       [OF f, of sample_table "''./local-lake''" Omitted Omitted]]
    sample_built [of sample_table Omitted Omitted]
  have "formats_built
          (snd (deltalake_write sample_services sample_table ''./local-lake'' Omitted Omitted []))
        = [\<lparr>format_type = ''identity'', key_field_names = None,
            value_fields = map column_field (columns sample_table)
                             @ [ValueField ''time'' ''int'', ValueField ''diff'' ''int'']\<rparr>]"
    by (simp add: sample_table_def)
  then show ?thesis using f by (simp add: sample_table_def)
qed

subsection \<open>The entitlement check\<close>

text \<open>
  Claim C10. In every run of \<^verbatim>\<open>write\<close> and of \<^verbatim>\<open>read\<close> the entitlement check for
  \<^verbatim>\<open>deltalake\<close> is the first thing done. If it raises, the call ends with that error and
  the check is all that happened: no storage, no format, no sink, no table.
\<close>

theorem entitlement_check_comes_first:
  "take 1 (snd (deltalake_write sv tbl uri s m [])) = [CheckEntitlements ''deltalake'']
   \<and> take 1 (snd (deltalake_read sv rs uri schema md ac pid dbg []))
       = [ReadCheckEntitlements ''deltalake'']
   \<and> (check_entitlements sv ''deltalake'' = Some e \<longrightarrow>
        deltalake_write sv tbl uri s m log = (Inl e, log @ [CheckEntitlements ''deltalake''])
      \<and> deltalake_read sv rs uri schema md ac pid dbg rlog
          = (Inl e, rlog @ [ReadCheckEntitlements ''deltalake''])
      \<and> storages_built (snd (deltalake_write sv tbl uri s m [])) = []
      \<and> formats_built (snd (deltalake_write sv tbl uri s m [])) = []
      \<and> sinks_registered (snd (deltalake_write sv tbl uri s m [])) = []
      \<and> source_storages_built (snd (deltalake_read sv rs uri schema md ac pid dbg [])) = []
      \<and> source_formats_built (snd (deltalake_read sv rs uri schema md ac pid dbg [])) = []
      \<and> tables_produced (snd (deltalake_read sv rs uri schema md ac pid dbg [])) = [])"
  using write_body_first [of sv tbl uri "kwarg_default None s" "kwarg_default (Some 60000) m"]
    read_body_first [of sv rs uri schema "kwarg_default ''streaming'' md"
      "kwarg_default (Some 1500) ac" "kwarg_default None pid" "kwarg_default None dbg"]
  by (simp add: deltalake_write_def deltalake_read_def write_body_unlicensed
        read_body_unlicensed)

theorem entitlement_check_comes_first_witness:
  "check_entitlements unlicensed_services ''deltalake'' = Some EntitlementError
   \<and> deltalake_write unlicensed_services sample_table ''./local-lake'' Omitted Omitted []
       = (Inl EntitlementError, [CheckEntitlements ''deltalake''])
   \<and> deltalake_read unlicensed_services sample_schema_services ''./local-lake'' sample_schema
         (Given ''static'') Omitted Omitted (Omitted :: unit option kwarg) []
       = (Inl EntitlementError, [ReadCheckEntitlements ''deltalake''])"
  using entitlement_check_comes_first
    [of unlicensed_services sample_table "''./local-lake''" Omitted Omitted
        sample_schema_services sample_schema "Given ''static''" Omitted Omitted
        "Omitted :: unit option kwarg" EntitlementError "[]" "[]"]
  by (simp add: unlicensed_refused)

subsection \<open>The append-only source\<close>

text \<open>
  Claim C6 (engine's reader modelled from the spec). Every table that \<^verbatim>\<open>read\<close> produces
  comes from a data source declared \<^verbatim>\<open>append_only\<close>, whatever the mode, the interval or
  the debug data; on every valid input (entitlement granted, schema and mode accepted) a
  table is produced. In the reader, every physical row becomes exactly one event, with
  diff \<open>+1\<close>: no deletion is ever emitted.
\<close>

theorem read_is_append_only:
  "(\<forall>src \<in> set (tables_produced (snd (deltalake_read sv rs uri schema md ac pid dbg []))).
       append_only src)
   \<and> (\<forall>t. fst (deltalake_read sv rs uri schema md ac pid dbg []) = Inr t \<longrightarrow>
          append_only (table_source t)
        \<and> tables_produced (snd (deltalake_read sv rs uri schema md ac pid dbg []))
            = [table_source t])
   \<and> (check_entitlements sv ''deltalake'' = None
      \<and> read_schema rs schema = Inr (schema', api_schema)
      \<and> internal_connector_mode rs (kwarg_default ''streaming'' md) = Inr cm \<longrightarrow>
        (\<exists>t. fst (deltalake_read sv rs uri schema md ac pid dbg []) = Inr t))
   \<and> (\<forall>ev \<in> set (read_pipeline polls). ev_diff ev = 1)
   \<and> map ev_values (read_pipeline polls) = concat (map (\<lambda>p. map snd (snd p)) polls)"
proof -
  let ?R = "read_body sv rs uri schema (kwarg_default ''streaming'' md)
              (kwarg_default (Some 1500) ac) (kwarg_default None pid)
              (kwarg_default None dbg) []"
  have a: "\<forall>src \<in> set (tables_produced (snd ?R)). append_only src"
    by (auto dest: read_body_tables)
  have b: "\<forall>t. fst ?R = Inr t \<longrightarrow>
             append_only (table_source t) \<and> tables_produced (snd ?R) = [table_source t]"
  proof (intro allI impI)
    fix t assume ok: "fst ?R = Inr t"
    from read_body_result [OF ok] have one: "tables_produced (snd ?R) = [table_source t]" .
    with a show "append_only (table_source t) \<and> tables_produced (snd ?R) = [table_source t]"
      by simp
  qed
  have c: "check_entitlements sv ''deltalake'' = None
      \<and> read_schema rs schema = Inr (schema', api_schema)
      \<and> internal_connector_mode rs (kwarg_default ''streaming'' md) = Inr cm \<longrightarrow>
        (\<exists>t. fst ?R = Inr t)"
    by (auto simp add: read_body_licensed Let_def)
  have d: "\<forall>ev \<in> set (read_pipeline polls). ev_diff ev = 1"
    by (auto dest: read_pipeline_diff)
  show ?thesis
    using a b c d by (simp add: deltalake_read_def read_pipeline_values)
qed

theorem read_is_append_only_witness:
  "fst (deltalake_read sample_services sample_schema_services ''./local-lake'' sample_schema
         (Given ''static'') Omitted Omitted (Omitted :: unit option kwarg) []) =
     Inr \<lparr>table_source =
            \<lparr>datastorage =
               \<lparr>storage_type = ''deltalake'', path = ''./local-lake'',
                storage_options = Omitted, min_commit_frequency = Omitted,
                mode = Given Static, persistent_id = Given None\<rparr>,
             dataformat =
               \<lparr>schema_format_type = ''transparent'', schema_kwargs = sample_schema\<rparr>,
             source_schema = sample_schema,
             source_options = \<lparr>commit_duration_ms = Some 1500\<rparr>,
             datasource_name = ''deltalake'', append_only = True\<rparr>,
          table_debug_data = None\<rparr>
   \<and> map append_only
         (tables_produced (snd (deltalake_read sample_services sample_schema_services
            ''./local-lake'' sample_schema (Given ''static'') Omitted Omitted
            (Omitted :: unit option kwarg) [])))
       = [True]
   \<and> map ev_diff (read_pipeline [(0, [(None, ''Hello''), (None, ''World'')])]) = [1, 1]"
proof -
  let ?R = "deltalake_read sample_services sample_schema_services ''./local-lake''
              sample_schema (Given ''static'') Omitted Omitted
              (Omitted :: unit option kwarg) []"
  have run: "fst ?R =
     Inr \<lparr>table_source =
            \<lparr>datastorage =
               \<lparr>storage_type = ''deltalake'', path = ''./local-lake'',
                storage_options = Omitted, min_commit_frequency = Omitted,
                mode = Given Static, persistent_id = Given None\<rparr>,
             dataformat =
               \<lparr>schema_format_type = ''transparent'', schema_kwargs = sample_schema\<rparr>,
             source_schema = sample_schema,
             source_options = \<lparr>commit_duration_ms = Some 1500\<rparr>,
             datasource_name = ''deltalake'', append_only = True\<rparr>,
          table_debug_data = None\<rparr>"
    by (simp add: deltalake_read_def read_body_licensed [OF sample_licensed]
          sample_schema_services_def Let_def)
  note facts = read_is_append_only
    [of sample_services sample_schema_services "''./local-lake''" sample_schema
        "Given ''static''" Omitted Omitted "Omitted :: unit option kwarg"
        sample_schema sample_schema Static "[(0, [(None, ''Hello''), (None, ''World'')])]"]
  from facts run have tables: "map append_only (tables_produced (snd ?R)) = [True]"
    by simp
  from facts
  have diffs: "map ev_diff (read_pipeline [(0, [(None, ''Hello''), (None, ''World'')])]) = [1, 1]"
    by (simp add: wrap_row_def)
  show ?thesis by (intro conjI run tables diffs)
qed

subsection \<open>The commit intervals\<close>

text \<open>
  Claim C7 (meaning of \<^verbatim>\<open>None\<close> modelled from the spec). When the caller leaves the
  interval out, \<^verbatim>\<open>read\<close> configures its source with a commit duration of 1500 ms and
  \<^verbatim>\<open>write\<close> its storage with a minimum commit frequency of 60000 ms; an explicit
  \<^verbatim>\<open>None\<close> reaches the engine as \<^verbatim>\<open>None\<close>, not as the default. In the engine, \<^verbatim>\<open>None\<close>
  means that a flush is always due and that a commit is due at every minibatch boundary.
\<close>

theorem commit_interval_defaults:
  "(\<forall>src \<in> set (tables_produced
        (snd (deltalake_read sv rs uri schema md Omitted pid dbg []))).
       commit_duration_ms (source_options src) = Some 1500)
   \<and> (\<forall>src \<in> set (tables_produced
        (snd (deltalake_read sv rs uri schema md (Given None) pid dbg []))).
       commit_duration_ms (source_options src) = None)
   \<and> (\<forall>ds \<in> set (storages_built (snd (deltalake_write sv tbl uri s Omitted []))).
       min_commit_frequency ds = Given (Some 60000))
   \<and> (\<forall>ds \<in> set (storages_built (snd (deltalake_write sv tbl uri s (Given None) []))).
       min_commit_frequency ds = Given None)
   \<and> flush_due None elapsed
   \<and> commit_due None boundary elapsed = boundary"
  by (auto simp add: deltalake_read_def deltalake_write_def flush_due_def commit_due_def
        dest: read_body_tables write_body_min_commit_frequency)

theorem commit_interval_defaults_witness:
  "map (\<lambda>src. commit_duration_ms (source_options src))
      (tables_produced (snd (deltalake_read sample_services sample_schema_services
         ''./local-lake'' sample_schema (Given ''static'') Omitted Omitted
         (Omitted :: unit option kwarg) []))) = [Some 1500]
   \<and> map (\<lambda>src. commit_duration_ms (source_options src))
      (tables_produced (snd (deltalake_read sample_services sample_schema_services
         ''./local-lake'' sample_schema (Given ''static'') (Given None) Omitted
         (Omitted :: unit option kwarg) []))) = [None]
   \<and> map min_commit_frequency
      (storages_built (snd (deltalake_write sample_services sample_table ''./local-lake''
         Omitted Omitted []))) = [Given (Some 60000)]
   \<and> map min_commit_frequency
      (storages_built (snd (deltalake_write sample_services sample_table ''./local-lake''
         Omitted (Given None) []))) = [Given None]"
proof -
  note facts = commit_interval_defaults
    [of sample_services sample_schema_services "''./local-lake''" sample_schema
        "Given ''static''" Omitted "Omitted :: unit option kwarg"
        sample_table Omitted 0 True]
  have r: "\<exists>src. tables_produced (snd (deltalake_read sample_services sample_schema_services
         ''./local-lake'' sample_schema (Given ''static'') ac Omitted
         (Omitted :: unit option kwarg) [])) = [src]" for ac
    by (simp add: deltalake_read_def read_body_licensed [OF sample_licensed]
          sample_schema_services_def Let_def)
  have w: "\<exists>ds. storages_built (snd (deltalake_write sample_services sample_table
         ''./local-lake'' Omitted m [])) = [ds]" for m
    by (simp add: deltalake_write_def
          write_body_resolved [OF sample_licensed resolve_not_s3] Let_def split: sum.splits)
  from r [of Omitted] r [of "Given None"] w [of Omitted] w [of "Given None"] facts
  show ?thesis by auto
qed

subsection \<open>What the storage configuration depends on\<close>

text \<open>
  Claim C8, as stated: two calls of \<^verbatim>\<open>write\<close> with the same URI build identical storage
  configurations. They do not: the same URI with \<^verbatim>\<open>min_commit_frequency\<close> left out and
  with \<^verbatim>\<open>min_commit_frequency=None\<close> gives two different \<^verbatim>\<open>DataStorage\<close> objects.
\<close>

theorem same_uri_different_storage_configuration:
  "storages_built (snd (deltalake_write sample_services sample_table ''./local-lake''
      Omitted Omitted []))
   \<noteq> storages_built (snd (deltalake_write sample_services sample_table ''./local-lake''
      Omitted (Given None) []))"
  by (simp add: deltalake_write_def
        write_body_resolved [OF sample_licensed resolve_not_s3] Let_def split: sum.splits)

text \<open>
  Claim C8, amended. The test for S3 depends on the first five characters of the URI
  and on nothing else. The \<^verbatim>\<open>DataStorage\<close> that \<^verbatim>\<open>write\<close> builds is the same for two calls
  that agree on the URI, on \<^verbatim>\<open>s3_connection_settings\<close>, on \<^verbatim>\<open>min_commit_frequency\<close> and on
  the entitlement and credential helpers, whatever the table and the value-field helper.
\<close>

theorem storage_configuration_determined_by_arguments:
  "(take 5 uri1 = take 5 uri2 \<longrightarrow> is_s3_uri uri1 = is_s3_uri uri2)
   \<and> (check_entitlements sv1 = check_entitlements sv2
      \<and> new_from_path sv1 = new_from_path sv2
      \<and> as_deltalake_storage_options sv1 = as_deltalake_storage_options sv2 \<longrightarrow>
        storages_built (snd (deltalake_write sv1 tbl1 uri s m []))
        = storages_built (snd (deltalake_write sv2 tbl2 uri s m [])))"
  by (auto simp add: is_s3_uri_prefix prefix_take5 deltalake_write_def
        intro: write_body_storages_cong)

theorem storage_configuration_determined_by_arguments_witness:
  "take 5 ''s3://logs/a'' = take 5 ''s3://other-bucket''
   \<and> is_s3_uri ''s3://logs/a'' = is_s3_uri ''s3://other-bucket''
   \<and> storages_built (snd (deltalake_write sample_services sample_table ''s3://logs/a''
        (Given (Some sample_settings)) Omitted []))
     = storages_built (snd (deltalake_write sample_services clashing_table ''s3://logs/a''
        (Given (Some sample_settings)) Omitted []))"
  using storage_configuration_determined_by_arguments
    [of "''s3://logs/a''" "''s3://other-bucket''" sample_services sample_services
        sample_table "''s3://logs/a''" "Given (Some sample_settings)" Omitted clashing_table]
  by simp

end
